theory Spec2Isabelle
  imports Complex_Main "HOL-Library.Char_ord" "HOL-Library.List_Lexorder" "HOL-Library.Multiset"
begin

section \<open>Data model of \<open>dotplot/__init__.py\<close>\<close>

text \<open>
  Exceptions of the source are values. \<open>ValueError\<close> is what \<open>__init__\<close> raises on a shape
  mismatch and what \<open>DataFrame.pivot\<close>, \<open>math.ceil\<close> of a NaN and \<open>max\<close> of an empty array
  raise; \<open>AttributeError\<close> is what reading an attribute of \<open>None\<close> raises; \<open>KeyError\<close> is what
  \<open>.loc\<close> raises for an absent label; \<open>IndexError\<close> is what NumPy raises for an index outside
  an array.
\<close>

datatype error = ValueError | AttributeError | KeyError | IndexError

text \<open>
  A \<open>pandas.DataFrame\<close>: the row labels, the column labels and the cells, row by row.
  Row labels are strings; column labels are strings, or pairs of strings for the two-level
  columns that \<open>pivot\<close> produces; cells are numbers, or optional numbers where NaN (\<open>None\<close>)
  can occur. Python floats are modelled as exact reals.
\<close>

record ('c, 'v) frame =
  index :: "string list"
  columns :: "'c list"
  cells :: "'v list list"

type_synonym dataframe = "(string, real) frame"

definition shape :: "('c, 'v) frame \<Rightarrow> nat \<times> nat" where
  "shape df = (length (index df), length (columns df))"

text \<open>\<open>df.values.flatten()\<close>: the cells in row-major order.\<close>

definition flatten :: "('c, 'v) frame \<Rightarrow> 'v list" where
  "flatten df = concat (cells df)"

text \<open>\<open>df.applymap(f)\<close>: a new frame with the same labels.\<close>

definition applymap :: "('v \<Rightarrow> 'w) \<Rightarrow> ('c, 'v) frame \<Rightarrow> ('c, 'w) frame" where
  "applymap f df = \<lparr>index = index df, columns = columns df, cells = map (map f) (cells df)\<rparr>"

text \<open>
  The attributes of a \<open>DotPlot\<close> object. \<open>resized_size_data\<close> is only annotated in
  \<open>__init__\<close>, so it is absent (\<open>None\<close>) until \<open>__get_coordinates\<close> assigns it.
\<close>

record dotplot =
  size_data :: dataframe
  color_data :: "dataframe option"
  height_item :: nat
  width_item :: nat
  resized_size_data :: "dataframe option"

section \<open>Construction\<close>

text \<open>
  \<open>df_color.shape\<close> where \<open>df_color\<close> may be \<open>None\<close>: reading the attribute of \<open>None\<close> raises.
\<close>

definition shape_attr :: "dataframe option \<Rightarrow> error + (nat \<times> nat)" where
  "shape_attr d = (case d of None \<Rightarrow> Inl AttributeError | Some f \<Rightarrow> Inr (shape f))"

text \<open>
  \<open>DotPlot.__init__\<close>. The guard is
  \<^verbatim>\<open>if (df_color is not None) & (df_size.shape != df_color.shape)\<close>;
  \<open>&\<close> evaluates both of its operands, so \<open>df_color.shape\<close> is read before the
  conjunction is formed, also when \<open>df_color\<close> is \<open>None\<close>.
\<close>

definition init :: "dataframe \<Rightarrow> dataframe option \<Rightarrow> error + dotplot" where
  "init df_size df_color =
     (let lhs = (df_color \<noteq> None) in
      case shape_attr df_color of
        Inl e \<Rightarrow> Inl e
      | Inr color_shape \<Rightarrow>
          if lhs \<and> shape df_size \<noteq> color_shape then Inl ValueError
          else Inr \<lparr>size_data = df_size, color_data = df_color,
                    height_item = fst (shape df_size), width_item = snd (shape df_size),
                    resized_size_data = None\<rparr>)"

section \<open>Construction from a long-form table\<close>

text \<open>
  The long-form table after \<open>data_frame[[item_key, group_key, sizes_key, color_key]]\<close>: one
  row per observation, holding the item label, the group label, the size value and the
  colour value. The four keys are taken to name four different columns of the caller's
  table, and the values to be numbers (no NaN in the source table).
\<close>

record tidy_row =
  row_item :: string
  row_group :: string
  row_size :: real
  row_color :: real

text \<open>\<open>str.split(sep)\<close> for a one-character separator, and \<open>sep.join(words)\<close>.\<close>

fun split_on :: "char \<Rightarrow> string \<Rightarrow> string list" where
  "split_on sep [] = [[]]"
| "split_on sep (x # xs) =
     (if x = sep then [] # split_on sep xs
      else (x # hd (split_on sep xs)) # tl (split_on sep xs))"

fun join :: "string \<Rightarrow> string list \<Rightarrow> string" where
  "join sep [] = []"
| "join sep [w] = w"
| "join sep (w # ws) = w @ sep @ join sep ws"

text \<open>\<open>s.startswith(p)\<close>.\<close>

definition startswith :: "string \<Rightarrow> string \<Rightarrow> bool" where
  "startswith s p = (take (length p) s = p)"

text \<open>The two lambdas of the source that rename columns.\<close>

definition flatten_column :: "string \<times> string \<Rightarrow> string" where
  "flatten_column x = join ''_'' [fst x, snd x]"

definition strip_key :: "string \<Rightarrow> string" where
  "strip_key x = join ''_'' (drop 1 (split_on (CHR ''_'') x))"

text \<open>
  \<open>data_frame.pivot(index=item_key, columns=group_key, values=[color_key, sizes_key])\<close>:
  it raises \<open>ValueError\<close> when an (item, group) pair occurs twice; otherwise the row labels
  are the items, sorted and without repetition, the columns are the pairs (value key,
  group) with the colour block before the size block and the groups sorted within each
  block, and a combination with no source row is NaN.
\<close>

definition lookup_cell :: "tidy_row list \<Rightarrow> (tidy_row \<Rightarrow> real) \<Rightarrow> string \<Rightarrow> string \<Rightarrow> real option" where
  "lookup_cell data_frame val i g =
     map_option val (find (\<lambda>r. row_item r = i \<and> row_group r = g) data_frame)"

definition pivot ::
  "tidy_row list \<Rightarrow> string \<Rightarrow> string \<Rightarrow> error + (string \<times> string, real option) frame" where
  "pivot data_frame color_key sizes_key =
     (if \<not> distinct (map (\<lambda>r. (row_item r, row_group r)) data_frame) then Inl ValueError
      else
        let items = sort (remdups (map row_item data_frame));
            groups = sort (remdups (map row_group data_frame))
        in Inr \<lparr>index = items,
                  columns = map (Pair color_key) groups @ map (Pair sizes_key) groups,
                  cells = map (\<lambda>i. map (lookup_cell data_frame row_color i) groups
                                   @ map (lookup_cell data_frame row_size i) groups) items\<rparr>)"

text \<open>
  \<open>df.loc[labels, :]\<close> for a list of row labels: for each label in turn, every row that
  carries it; \<open>KeyError\<close> when a label is on no row.
\<close>

definition loc_rows :: "string list \<Rightarrow> ('c, 'v) frame \<Rightarrow> error + ('c, 'v) frame" where
  "loc_rows labels df =
     (if \<exists>l \<in> set labels. l \<notin> set (index df) then Inl KeyError
      else
        let picked = concat (map (\<lambda>l. filter (\<lambda>ir. fst ir = l) (zip (index df) (cells df))) labels)
        in Inr \<lparr>index = map fst picked, columns = columns df, cells = map snd picked\<rparr>)"

text \<open>\<open>df.loc[:, mask]\<close> for a boolean mask over the columns.\<close>

definition pick :: "bool list \<Rightarrow> 'a list \<Rightarrow> 'a list" where
  "pick keep xs = map fst (filter snd (zip xs keep))"

definition loc_columns :: "bool list \<Rightarrow> ('c, 'v) frame \<Rightarrow> ('c, 'v) frame" where
  "loc_columns keep df =
     \<lparr>index = index df, columns = pick keep (columns df), cells = map (pick keep) (cells df)\<rparr>"

text \<open>\<open>df.columns = df.columns.map(f)\<close> and \<open>df.fillna(0)\<close>.\<close>

definition rename_columns :: "('c \<Rightarrow> 'd) \<Rightarrow> ('c, 'v) frame \<Rightarrow> ('d, 'v) frame" where
  "rename_columns f df = \<lparr>index = index df, columns = map f (columns df), cells = cells df\<rparr>"

definition fillna0 :: "('c, real option) frame \<Rightarrow> ('c, real) frame" where
  "fillna0 df = applymap (\<lambda>v. case v of None \<Rightarrow> 0 | Some x \<Rightarrow> x) df"

text \<open>
  \<open>DotPlot.parse_from_tidy_data\<close>, for calls that leave \<open>selected_group\<close> at its default
  \<open>None\<close>. The last line of the source is \<open>return cls(color_df, sizes_df)\<close>, and the
  parameters of \<open>__init__\<close> are \<open>(df_size, df_color)\<close> in that order.
\<close>

definition parse_from_tidy_data ::
  "tidy_row list \<Rightarrow> string \<Rightarrow> string \<Rightarrow> string list option \<Rightarrow> (real \<Rightarrow> real) option
     \<Rightarrow> (real \<Rightarrow> real) option \<Rightarrow> error + dotplot" where
  "parse_from_tidy_data data_frame sizes_key color_key selected_item sizes_func color_func =
     (let original_item_order = rev (map row_item data_frame);
          data_frame1 = (case sizes_func of
                           None \<Rightarrow> data_frame
                         | Some f \<Rightarrow> map (\<lambda>r. r\<lparr>row_size := f (row_size r)\<rparr>) data_frame);
          data_frame2 = (case color_func of
                           None \<Rightarrow> data_frame1
                         | Some f \<Rightarrow> map (\<lambda>r. r\<lparr>row_color := f (row_color r)\<rparr>) data_frame1)
      in case pivot data_frame2 color_key sizes_key of
           Inl e \<Rightarrow> Inl e
         | Inr pivoted \<Rightarrow>
             (case loc_rows original_item_order pivoted of
                Inl e \<Rightarrow> Inl e
              | Inr ordered \<Rightarrow>
                  (case (case selected_item of
                           None \<Rightarrow> Inr ordered
                         | Some sel \<Rightarrow> loc_rows sel ordered) of
                     Inl e \<Rightarrow> Inl e
                   | Inr selected \<Rightarrow>
                       let flat = fillna0 (rename_columns flatten_column selected);
                           color_df = loc_columns (map (\<lambda>n. startswith n color_key) (columns flat)) flat;
                           sizes_df = loc_columns (map (\<lambda>n. startswith n sizes_key) (columns flat)) flat;
                           color_df' = rename_columns strip_key color_df;
                           sizes_df' = rename_columns strip_key sizes_df
                       in init color_df' (Some sizes_df'))))"

section \<open>Coordinates\<close>

text \<open>
  \<open>DotPlot.__get_coordinates\<close>: \<open>X = list(range(1, W + 1)) * H\<close>,
  \<open>Y = sorted(list(range(1, H + 1)) * W)\<close>, and the assignment of \<open>resized_size_data\<close>.
  The updated object is returned with the two lists.
\<close>

definition py_range1 :: "nat \<Rightarrow> int list" where
  "py_range1 n = map int [1..<n + 1]"

definition list_times :: "'a list \<Rightarrow> nat \<Rightarrow> 'a list" where
  "list_times xs n = concat (replicate n xs)"

definition get_coordinates :: "dotplot \<Rightarrow> real \<Rightarrow> dotplot \<times> int list \<times> int list" where
  "get_coordinates self size_factor =
     (let X = list_times (py_range1 (width_item self)) (height_item self);
          Y = sort (list_times (py_range1 (height_item self)) (width_item self))
      in (self\<lparr>resized_size_data := Some (applymap (\<lambda>x. x * size_factor) (size_data self))\<rparr>,
          X, Y))"

section \<open>Figure size\<close>

definition DEFAULT_ITEM_HEIGHT :: real where "DEFAULT_ITEM_HEIGHT = 3 / 10"
definition DEFAULT_ITEM_WIDTH :: real where "DEFAULT_ITEM_WIDTH = 35 / 100"
definition DEFAULT_LEGENDS_WIDTH :: real where "DEFAULT_LEGENDS_WIDTH = 5 / 10"
definition MIN_FIGURE_HEIGHT :: real where "MIN_FIGURE_HEIGHT = 3"

text \<open>\<open>.max()\<close> of a sequence; there is no maximum of an empty one.\<close>

fun max_of :: "'a::linorder list \<Rightarrow> 'a option" where
  "max_of [] = None"
| "max_of (x # xs) = Some (fold max xs x)"

fun min_of :: "'a::linorder list \<Rightarrow> 'a option" where
  "min_of [] = None"
| "min_of (x # xs) = Some (fold min xs x)"

text \<open>
  What \<open>__get_figure\<close> computes: the \<open>figsize\<close> of the figure and the \<open>width_ratios\<close> of its
  grid. The subplots themselves are Matplotlib objects and are not modelled.
\<close>

record figure =
  figure_width :: real
  figure_height :: real
  width_ratios :: "real \<times> real"

text \<open>
  \<open>DotPlot.__get_figure\<close>. On an empty index \<open>index.map(len).max()\<close> is NaN, and
  \<open>math.ceil\<close> of a NaN raises \<open>ValueError\<close>.
\<close>

definition get_figure :: "dotplot \<Rightarrow> error + figure" where
  "get_figure self =
     (case max_of (map length (index (size_data self))) of
        None \<Rightarrow> Inl ValueError
      | Some longest \<Rightarrow>
          let text_max = \<lceil>real longest / 15\<rceil>;
              mainplot_height = real (height_item self) * DEFAULT_ITEM_HEIGHT;
              mainplot_width = (real_of_int text_max + real (width_item self)) * DEFAULT_ITEM_WIDTH;
              figure_height = max MIN_FIGURE_HEIGHT mainplot_height;
              figure_width = mainplot_width + DEFAULT_LEGENDS_WIDTH
          in Inr \<lparr>figure_width = figure_width, figure_height = figure_height,
                    width_ratios = (mainplot_width, DEFAULT_LEGENDS_WIDTH)\<rparr>)"

section \<open>Drawing\<close>

text \<open>
  The \<open>PathCollection\<close> that \<open>ax.scatter\<close> returns, as far as the source reads it back:
  the point positions, the sizes, and the colour argument. With \<open>c='r'\<close> every point has
  the one fixed colour and the collection has no array to map through the colour map;
  with \<open>c\<close> a sequence of numbers, that sequence is its array.
\<close>

datatype colour_arg = Fixed string | Mapped "real list"

record scatter =
  xs_of :: "int list"
  ys_of :: "int list"
  c_of :: colour_arg
  s_of :: "real list"

definition get_array :: "scatter \<Rightarrow> real list option" where
  "get_array sct = (case c_of sct of Fixed _ \<Rightarrow> None | Mapped a \<Rightarrow> Some a)"

text \<open>
  \<open>DotPlot.__draw_dotplot\<close>: the scatter it draws, with the object as
  \<open>__get_coordinates\<close> leaves it. Axis limits, ticks and tick labels are settings of the
  Matplotlib axes and are not modelled.
\<close>

definition draw_dotplot :: "dotplot \<Rightarrow> real \<Rightarrow> dotplot \<times> scatter" where
  "draw_dotplot self size_factor =
     (case get_coordinates self size_factor of
        (self', X, Y) \<Rightarrow>
          (self',
           \<lparr>xs_of = X, ys_of = Y,
            c_of = (case color_data self' of
                      None \<Rightarrow> Fixed ''r''
                    | Some cd \<Rightarrow> Mapped (flatten cd)),
            s_of = (case resized_size_data self' of
                      None \<Rightarrow> []
                    | Some rd \<Rightarrow> flatten rd)\<rparr>))"

text \<open>
  \<open>DotPlot.__draw_color_bar\<close>: the two tick labels \<open>[vmin, vmax]\<close> it sets. \<open>vmax\<close> is
  settled before \<open>vmin\<close>. \<open>sct.get_array()\<close> is \<open>None\<close> for a scatter of fixed colour, and
  \<open>.max()\<close> of \<open>None\<close> raises \<open>AttributeError\<close>; \<open>.max()\<close> of an empty array raises
  \<open>ValueError\<close>.
\<close>

definition array_max :: "scatter \<Rightarrow> error + real" where
  "array_max sct =
     (case get_array sct of
        None \<Rightarrow> Inl AttributeError
      | Some a \<Rightarrow> (case max_of a of None \<Rightarrow> Inl ValueError | Some m \<Rightarrow> Inr m))"

definition array_min :: "scatter \<Rightarrow> error + real" where
  "array_min sct =
     (case get_array sct of
        None \<Rightarrow> Inl AttributeError
      | Some a \<Rightarrow> (case min_of a of None \<Rightarrow> Inl ValueError | Some m \<Rightarrow> Inr m))"

definition draw_color_bar :: "scatter \<Rightarrow> real option \<Rightarrow> real option \<Rightarrow> error + real \<times> real" where
  "draw_color_bar sct vmin vmax =
     (case (case vmax of
              None \<Rightarrow> (case array_max sct of Inl e \<Rightarrow> Inl e | Inr m \<Rightarrow> Inr (real_of_int \<lceil>m\<rceil>))
            | Some v \<Rightarrow> Inr v) of
        Inl e \<Rightarrow> Inl e
      | Inr vmax' \<Rightarrow>
          (case (case vmin of
                   None \<Rightarrow> (case array_min sct of Inl e \<Rightarrow> Inl e | Inr m \<Rightarrow> Inr (real_of_int \<lfloor>m\<rfloor>))
                 | Some v \<Rightarrow> Inr v) of
             Inl e \<Rightarrow> Inl e
           | Inr vmin' \<Rightarrow> Inr (vmin', vmax')))"

text \<open>
  NumPy indexing \<open>a[[i, j, k]]\<close>: a negative index counts from the end, and an index outside
  the array raises \<open>IndexError\<close>.
\<close>

definition np_item :: "'a list \<Rightarrow> int \<Rightarrow> error + 'a" where
  "np_item a i =
     (if 0 \<le> i \<and> i < int (length a) then Inr (a ! nat i)
      else if i < 0 \<and> - int (length a) \<le> i then Inr (a ! nat (int (length a) + i))
      else Inl IndexError)"

fun np_take :: "'a list \<Rightarrow> int list \<Rightarrow> error + 'a list" where
  "np_take a [] = Inr []"
| "np_take a (i # rest) =
     (case np_item a i of
        Inl e \<Rightarrow> Inl e
      | Inr v \<Rightarrow> (case np_take a rest of Inl e \<Rightarrow> Inl e | Inr vs \<Rightarrow> Inr (v # vs)))"

text \<open>
  \<open>DotPlot.__draw_legend\<close>, from the handles and labels that Matplotlib's
  \<open>sct.legend_elements\<close> returns (that routine is not part of the source and is an input
  here): the handles and labels given to \<open>ax.legend\<close>.
\<close>

definition draw_legend :: "'h list \<times> string list \<Rightarrow> error + 'h list \<times> string list" where
  "draw_legend elements =
     (case elements of
        (handles, labels) \<Rightarrow>
          if length handles > 3 then
            (case np_take handles [0, \<lceil>real (length handles) / 2\<rceil>, - 1] of
               Inl e \<Rightarrow> Inl e
             | Inr handles' \<Rightarrow>
                 (case np_take labels [0, \<lceil>real (length labels) / 2\<rceil>, - 1] of
                    Inl e \<Rightarrow> Inl e
                  | Inr labels' \<Rightarrow> Inr (handles', labels')))
          else Inr (handles, labels))"

text \<open>
  What one call of \<open>plot\<close> has drawn when it returns: the figure, the scatter (the value
  \<open>plot\<close> returns), the legend entries and the two tick labels of the colour bar.
\<close>

record 'h rendering =
  fig_of :: figure
  scatter_of :: scatter
  legend_of :: "'h list \<times> string list"
  cbar_labels :: "real \<times> real"

text \<open>
  \<open>DotPlot.plot\<close> with all of \<open>size_factor\<close>, \<open>vmin\<close> and \<open>vmax\<close> given. The object is
  returned as the call leaves it, also when the call raises. \<open>legend_elements\<close> stands for
  Matplotlib's routine of that name, applied to the scatter and \<open>size_factor\<close>. Saving to
  \<open>path\<close> and the colour map do not change what is computed and are left out.
\<close>

definition plot ::
  "(scatter \<Rightarrow> real \<Rightarrow> 'h list \<times> string list) \<Rightarrow> dotplot \<Rightarrow> real \<Rightarrow> real option \<Rightarrow> real option
     \<Rightarrow> dotplot \<times> (error + 'h rendering)" where
  "plot legend_elements self size_factor vmin vmax =
     (case get_figure self of
        Inl e \<Rightarrow> (self, Inl e)
      | Inr fig \<Rightarrow>
          (case draw_dotplot self size_factor of
             (self', sct) \<Rightarrow>
               (case draw_legend (legend_elements sct size_factor) of
                  Inl e \<Rightarrow> (self', Inl e)
                | Inr leg \<Rightarrow>
                    (case draw_color_bar sct vmin vmax of
                       Inl e \<Rightarrow> (self', Inl e)
                     | Inr labels \<Rightarrow>
                         (self', Inr \<lparr>fig_of = fig, scatter_of = sct, legend_of = leg,
                                      cbar_labels = labels\<rparr>)))))"

text \<open>
  A call of \<open>plot\<close> as the caller writes it: each argument is either left out (\<open>None\<close>)
  or supplied (\<open>Some\<close>), and a supplied \<open>vmin\<close> or \<open>vmax\<close> may itself be Python's \<open>None\<close>.
  The defaults of the signature are \<open>size_factor = 15\<close>, \<open>vmin = 0\<close>, \<open>vmax = None\<close>.
\<close>

definition plot_call ::
  "(scatter \<Rightarrow> real \<Rightarrow> 'h list \<times> string list) \<Rightarrow> dotplot \<Rightarrow> real option \<Rightarrow> real option option
     \<Rightarrow> real option option \<Rightarrow> dotplot \<times> (error + 'h rendering)" where
  "plot_call legend_elements self size_factor_arg vmin_arg vmax_arg =
     plot legend_elements self
       (case size_factor_arg of None \<Rightarrow> 15 | Some f \<Rightarrow> f)
       (case vmin_arg of None \<Rightarrow> Some 0 | Some v \<Rightarrow> v)
       (case vmax_arg of None \<Rightarrow> None | Some v \<Rightarrow> v)"

section \<open>Sample inputs\<close>

text \<open>
  The frame of the end-to-end scenario of the specification: items \<open>a\<close>, \<open>b\<close>, groups \<open>x\<close>,
  \<open>y\<close>, cells \<open>[[1, 2], [3, 4]]\<close>; and the object whose attributes are that frame, no
  colour frame and the frame's shape.
\<close>

definition sample_frame :: dataframe where
  "sample_frame = \<lparr>index = [''a'', ''b''], columns = [''x'', ''y''], cells = [[1, 2], [3, 4]]\<rparr>"

definition sample_object :: dotplot where
  "sample_object = \<lparr>size_data = sample_frame, color_data = None, height_item = 2,
                     width_item = 2, resized_size_data = None\<rparr>"

text \<open>
  A stand-in for Matplotlib's \<open>legend_elements\<close> in concrete evaluations of \<open>plot\<close>: it returns
  no entries, whatever the scatter.
\<close>

definition no_entries :: "scatter \<Rightarrow> real \<Rightarrow> unit list \<times> string list" where
  "no_entries sct size_factor = ([], [])"

text \<open>
  An object with a colour frame: one item, one group, size \<open>1\<close> and colour \<open>5.5\<close>.
\<close>

definition one_cell_object :: dotplot where
  "one_cell_object =
     \<lparr>size_data = \<lparr>index = [''a''], columns = [''x''], cells = [[1]]\<rparr>,
      color_data = Some \<lparr>index = [''a''], columns = [''x''], cells = [[11 / 2]]\<rparr>,
      height_item = 1, width_item = 1, resized_size_data = None\<rparr>"

text \<open>
  Long-form tables: a single observation; and item \<open>a\<close> observed in the groups \<open>x\<close> and
  \<open>y\<close>, followed by item \<open>b\<close> observed in group \<open>x\<close>.
\<close>

definition one_row_table :: "tidy_row list" where
  "one_row_table = [\<lparr>row_item = ''a'', row_group = ''x'', row_size = 1, row_color = 2\<rparr>]"

definition three_row_table :: "tidy_row list" where
  "three_row_table =
     [\<lparr>row_item = ''a'', row_group = ''x'', row_size = 1, row_color = 2\<rparr>,
      \<lparr>row_item = ''a'', row_group = ''y'', row_size = 3, row_color = 4\<rparr>,
      \<lparr>row_item = ''b'', row_group = ''x'', row_size = 5, row_color = 6\<rparr>]"

section \<open>Properties of construction\<close>

lemma init_None: "init df_size None = Inl AttributeError"
  by (simp add: init_def shape_attr_def)

lemma init_Some:
  "init df_size (Some c) =
     (if shape df_size \<noteq> shape c then Inl ValueError
      else Inr \<lparr>size_data = df_size, color_data = Some c,
                height_item = fst (shape df_size), width_item = snd (shape df_size),
                resized_size_data = None\<rparr>)"
  by (simp add: init_def shape_attr_def)

section \<open>Coordinate generation\<close>

lemma mset_blocks: "mset (concat (map (\<lambda>a. a # replicate n a) xs)) = mset xs + mset (concat (map (replicate n) xs))"
  by (induction xs) auto

lemma mset_times_blocks: "mset (concat (replicate n xs)) = mset (concat (map (replicate n) xs))"
proof (induction n)
  case 0
  show ?case by (induction xs) auto
next
  case (Suc n)
  then show ?case by (simp add: mset_blocks)
qed

lemma sorted_blocks: "sorted xs \<Longrightarrow> sorted (concat (map (replicate n) xs))"
  by (induction xs) (auto simp: sorted_append)

lemma sort_list_times: "sorted xs \<Longrightarrow> sort (list_times xs n) = concat (map (replicate n) xs)"
  unfolding list_times_def
  by (rule properties_for_sort) (simp_all add: mset_times_blocks sorted_blocks)

lemma sorted_py_range1: "sorted (py_range1 n)"
  unfolding py_range1_def by (simp add: sorted_map del: upt_Suc)

lemma zip_blocks:
  "zip (concat (replicate (length ys) xs)) (concat (map (replicate (length xs)) ys))
     = concat (map (\<lambda>y. map (\<lambda>x. (x, y)) xs) ys)"
proof (induction ys)
  case Nil
  show ?case by simp
next
  case (Cons y ys)
  have "zip xs (replicate (length xs) y) = map (\<lambda>x. (x, y)) xs"
    by (simp add: zip_replicate2)
  with Cons show ?case by simp
qed

lemma nth_blocks:
  "k < length ys * length xs \<Longrightarrow>
     concat (map (\<lambda>y. map (\<lambda>x. (x, y)) xs) ys) ! k = (xs ! (k mod length xs), ys ! (k div length xs))"
proof (induction ys arbitrary: k)
  case Nil
  then show ?case by simp
next
  case (Cons y ys)
  show ?case
  proof (cases "k < length xs")
    case True
    then show ?thesis by (simp add: nth_append)
  next
    case False
    then have ge: "length xs \<le> k" by simp
    from Cons.prems have pos: "0 < length xs" by (cases xs) auto
    from ge Cons.prems have "k - length xs < length ys * length xs" by simp
    from Cons.IH [OF this] have
      "concat (map (\<lambda>y. map (\<lambda>x. (x, y)) xs) ys) ! (k - length xs)
         = (xs ! ((k - length xs) mod length xs), ys ! ((k - length xs) div length xs))" .
    moreover have "(k - length xs) mod length xs = k mod length xs"
      using ge by (simp add: le_mod_geq)
    moreover have "k div length xs = Suc ((k - length xs) div length xs)"
      using ge pos by (simp add: le_div_geq)
    ultimately show ?thesis using False by (simp add: nth_append)
  qed
qed

lemma distinct_blocks:
  "distinct xs \<Longrightarrow> distinct ys \<Longrightarrow> distinct (concat (map (\<lambda>y. map (\<lambda>x. (x, y)) xs) ys))"
  by (induction ys) (auto simp: distinct_map inj_on_def)

lemma set_blocks: "set (concat (map (\<lambda>y. map (\<lambda>x. (x, y)) xs) ys)) = set xs \<times> set ys"
  by auto

lemma set_py_range1: "set (py_range1 n) = {1..int n}"
proof -
  have "int ` {1..<Suc n} = {1..int n}"
  proof (rule set_eqI)
    fix z show "z \<in> int ` {1..<Suc n} \<longleftrightarrow> z \<in> {1..int n}"
    proof
      assume "z \<in> int ` {1..<Suc n}" then show "z \<in> {1..int n}" by auto
    next
      assume z: "z \<in> {1..int n}"
      then have "z = int (nat z)" "nat z \<in> {1..<Suc n}" by auto
      then show "z \<in> int ` {1..<Suc n}" by blast
    qed
  qed
  then show ?thesis by (simp add: py_range1_def del: upt_Suc)
qed

lemma length_py_range1: "length (py_range1 n) = n" by (simp add: py_range1_def)
lemma distinct_py_range1: "distinct (py_range1 n)" by (simp add: py_range1_def distinct_map inj_on_def)
lemma nth_py_range1: "i < n \<Longrightarrow> py_range1 n ! i = int i + 1" 
  unfolding py_range1_def by (simp del: upt_Suc)

lemma zip_coordinates:
  "zip (list_times (py_range1 W) H) (sort (list_times (py_range1 H) W))
     = concat (map (\<lambda>y. map (\<lambda>x. (x, y)) (py_range1 W)) (py_range1 H))"
proof -
  have "sort (list_times (py_range1 H) W) = concat (map (replicate W) (py_range1 H))"
    by (rule sort_list_times) (rule sorted_py_range1)
  then show ?thesis
    using zip_blocks [of "py_range1 H" "py_range1 W"]
    by (simp add: list_times_def length_py_range1)
qed

text \<open>
  Claim C7. For an object of \<open>H\<close> items and \<open>W\<close> groups, \<open>__get_coordinates\<close> returns lists
  \<open>X\<close> and \<open>Y\<close> of \<open>H * W\<close> entries each; the pairs \<open>(X[k], Y[k])\<close> are pairwise different,
  they are exactly the points of the grid \<open>{1..W} \<times> {1..H}\<close>, and they come in row-major
  order with \<open>x\<close> cycling fastest: the pair at position \<open>k\<close> is
  \<open>(k mod W + 1, k div W + 1)\<close>.
\<close>

theorem get_coordinates_grid:
  assumes "get_coordinates self size_factor = (self', X, Y)"
  shows "length X = height_item self * width_item self
       \<and> length Y = height_item self * width_item self
       \<and> distinct (zip X Y)
       \<and> set (zip X Y) = {1..int (width_item self)} \<times> {1..int (height_item self)}
       \<and> (\<forall>k < height_item self * width_item self.
            zip X Y ! k = (int (k mod width_item self) + 1, int (k div width_item self) + 1))"
proof -
  let ?W = "width_item self" and ?H = "height_item self"
  from assms have X: "X = list_times (py_range1 ?W) ?H"
    and Y: "Y = sort (list_times (py_range1 ?H) ?W)"
    by (simp_all add: get_coordinates_def Let_def)
  have zipXY: "zip X Y = concat (map (\<lambda>y. map (\<lambda>x. (x, y)) (py_range1 ?W)) (py_range1 ?H))"
    unfolding X Y by (rule zip_coordinates)
  have lX: "length X = ?H * ?W"
    unfolding X list_times_def by (simp add: length_concat length_py_range1 sum_list_replicate)
  have "length Y = length (list_times (py_range1 ?H) ?W)" unfolding Y by simp
  also have "\<dots> = ?H * ?W"
    unfolding list_times_def by (simp add: length_concat length_py_range1 sum_list_replicate)
  finally have lY: "length Y = ?H * ?W" .
  have d: "distinct (zip X Y)"
    unfolding zipXY by (rule distinct_blocks) (rule distinct_py_range1)+
  have s: "set (zip X Y) = {1..int ?W} \<times> {1..int ?H}"
    unfolding zipXY by (simp only: set_blocks set_py_range1)
  have n: "\<forall>k < ?H * ?W. zip X Y ! k = (int (k mod ?W) + 1, int (k div ?W) + 1)"
  proof (intro allI impI)
    fix k assume k: "k < ?H * ?W"
    then have W: "0 < ?W" by (cases "?W") auto
    from k have kd: "k div ?W < ?H"
      by (simp add: less_mult_imp_div_less)
    from W have km: "k mod ?W < ?W" by simp
    from k have "zip X Y ! k = (py_range1 ?W ! (k mod ?W), py_range1 ?H ! (k div ?W))"
      unfolding zipXY using nth_blocks [of k "py_range1 ?H" "py_range1 ?W"]
      by (simp add: length_py_range1)
    then show "zip X Y ! k = (int (k mod ?W) + 1, int (k div ?W) + 1)"
      using kd km by (simp add: nth_py_range1)
  qed
  from lX lY d s n show ?thesis by blast
qed


theorem get_coordinates_grid_witness:
  "get_coordinates sample_object 10
     = (sample_object\<lparr>resized_size_data := Some (applymap (\<lambda>x. x * 10) sample_frame)\<rparr>,
        [1, 2, 1, 2], [1, 1, 2, 2])
   \<and> distinct (zip [1, 2, 1, 2 :: int] [1, 1, 2, 2 :: int])
   \<and> set (zip [1, 2, 1, 2 :: int] [1, 1, 2, 2 :: int]) = {1..int 2} \<times> {1..int 2}
   \<and> zip [1, 2, 1, 2 :: int] [1, 1, 2, 2 :: int] ! 2 = (int (2 mod 2) + 1, int (2 div 2) + 1)"
proof -
  have h: "get_coordinates sample_object 10
     = (sample_object\<lparr>resized_size_data := Some (applymap (\<lambda>x. x * 10) sample_frame)\<rparr>,
        [1, 2, 1, 2], [1, 1, 2, 2])"
    by (simp add: get_coordinates_def sample_object_def list_times_def py_range1_def
        numeral_2_eq_2 Let_def)
  have w: "width_item sample_object = 2" and hh: "height_item sample_object = 2"
    by (simp_all add: sample_object_def)
  from get_coordinates_grid [OF h] have
    "distinct (zip [1, 2, 1, 2 :: int] [1, 1, 2, 2 :: int])"
    "set (zip [1, 2, 1, 2 :: int] [1, 1, 2, 2 :: int]) = {1..int 2} \<times> {1..int 2}"
    "\<forall>k < 2 * 2. zip [1, 2, 1, 2 :: int] [1, 1, 2, 2 :: int] ! k
        = (int (k mod 2) + 1, int (k div 2) + 1)"
    unfolding w hh by blast+
  with h show ?thesis by simp
qed

end
